theory Spec2Isabelle
  imports Complex_Main
begin

section \<open>Strings and Python values\<close>

text \<open>
  \<^verbatim>\<open>str.split(sep)\<close> for a one-character separator: the pieces between the
  separators, empty pieces kept, so the empty string gives one empty piece.
\<close>

fun py_split :: "char \<Rightarrow> string \<Rightarrow> string list" where
  "py_split sep [] = [[]]"
| "py_split sep (c # cs) =
     (if c = sep then [] # py_split sep cs
      else (case py_split sep cs of
              [] \<Rightarrow> [[c]]
            | w # ws \<Rightarrow> (c # w) # ws))"

text \<open>\<^verbatim>\<open>sep.join(xs)\<close>.\<close>

fun py_join :: "string \<Rightarrow> string list \<Rightarrow> string" where
  "py_join sep [] = []"
| "py_join sep [x] = x"
| "py_join sep (x # y # ys) = x @ sep @ py_join sep (y # ys)"

text \<open>
  The truth value Python gives a value that is \<^verbatim>\<open>None\<close> or a string:
  \<^verbatim>\<open>None\<close> and the empty string are false.
\<close>

definition truthy :: "string option \<Rightarrow> bool" where
  "truthy v = (case v of None \<Rightarrow> False | Some s \<Rightarrow> s \<noteq> [])"

section \<open>The domain walker\<close>

text \<open>
  \<^verbatim>\<open>
  def _iter_domain(domain):
      dom = domain.split(".")
      dom_idx = len(dom)
      while dom_idx > 0:
          yield ".".join(dom[dom_idx-1:])
          dom_idx -= 1
  \<close>
  The generator is modelled by the list of the values it yields, in order; the list
  \<^verbatim>\<open>dom\<close> is called \<open>dom_labels\<close>.
\<close>

fun iter_domain_loop :: "string list \<Rightarrow> nat \<Rightarrow> string list" where
  "iter_domain_loop dom_labels dom_idx =
     (if dom_idx > 0
      then py_join ''.'' (drop (dom_idx - 1) dom_labels) # iter_domain_loop dom_labels (dom_idx - 1)
      else [])"

declare iter_domain_loop.simps [simp del]

definition iter_domain :: "string \<Rightarrow> string list" where
  "iter_domain domain =
     (let dom_labels = py_split CHR ''.'' domain;
          dom_idx = length dom_labels
      in iter_domain_loop dom_labels dom_idx)"

section \<open>The hook, its environment and the outside world\<close>

text \<open>One value of the dictionary \<^verbatim>\<open>_zone_id_cache\<close>: \<^verbatim>\<open>{"id": ..., "created": ...}\<close>.\<close>

record cache_entry =
  entry_id :: "string option"
  created :: real

text \<open>The persisted cache: \<^verbatim>\<open>{"account": ..., "zone": ...}\<close>.\<close>

record cache_json =
  account :: "string option"
  zone :: "string \<rightharpoonup> cache_entry"

datatype file_content = Unparsable | Json cache_json

record stored_file =
  content :: file_content
  fmode :: nat

text \<open>What the provider's API returns: zones and TXT records, of which the hook reads the id.\<close>

record zone_info =
  z_id :: string
  z_name :: string

record txt_record =
  rec_id :: string
  rec_name :: string
  rec_content :: string

record new_record =
  nr_name :: string
  nr_type :: string
  nr_content :: string
  nr_ttl :: nat

datatype exn = CloudFlareAPIError | OtherException | JSONDecodeError | IndexError | TypeError

datatype dns_answer = DNSException | Answer "string list list"

text \<open>
  Every call that leaves the process is an event of the trace, with what it returned:
  the clock, the provider's API (zone id as passed, possibly \<^verbatim>\<open>None\<close>), the
  resolver (with the name servers given, if any) and \<^verbatim>\<open>time.sleep\<close>.
\<close>

datatype event =
    Time real
  | ZonesGet string "exn + zone_info list"
  | RecordsGet "string option" string string "exn + txt_record list"
  | RecordsPost "string option" new_record "exn + txt_record"
  | RecordsDelete "string option" string "exn + unit"
  | Query "string list option" string dns_answer
  | Sleep nat

text \<open>
  The outside world answers each call from the history of the calls made so far; the
  theorems hold for every such world.
\<close>

record world =
  time_time :: "event list \<Rightarrow> real"
  zones_get :: "event list \<Rightarrow> string \<Rightarrow> exn + zone_info list"
  dns_records_get :: "event list \<Rightarrow> string option \<Rightarrow> string \<Rightarrow> string \<Rightarrow> exn + txt_record list"
  dns_records_post :: "event list \<Rightarrow> string option \<Rightarrow> new_record \<Rightarrow> exn + txt_record"
  dns_records_delete :: "event list \<Rightarrow> string option \<Rightarrow> string \<Rightarrow> exn + unit"
  resolver_query :: "event list \<Rightarrow> string list option \<Rightarrow> string \<Rightarrow> dns_answer"

text \<open>
  The environment variables the hook reads, numbers already parsed (\<^verbatim>\<open>None\<close>: unset).
\<close>

record env =
  CF_CACHETIME :: "int option"
  CF_API_EMAIL :: "string option"
  CF_DNS_SERVERS :: "string option"
  CF_CACHEFMODE :: "nat option"
  CF_CACHEFILE :: "string option"

text \<open>
  The state of a \<^verbatim>\<open>CloudFlareHook\<close> together with the files it reads and writes and
  the trace of its calls.
\<close>

record hook =
  zone_id_cache :: "string \<rightharpoonup> cache_entry"
  cache_changed :: bool
  files :: "string \<rightharpoonup> stored_file"
  trace :: "event list"

text \<open>\<^verbatim>\<open>__init__\<close>: an empty cache, not changed.\<close>

definition hook_init :: "(string \<rightharpoonup> stored_file) \<Rightarrow> hook" where
  "hook_init fs = \<lparr>zone_id_cache = Map.empty, cache_changed = False, files = fs, trace = []\<rparr>"

definition emit :: "event \<Rightarrow> hook \<Rightarrow> hook" where
  "emit ev st = st\<lparr>trace := trace st @ [ev]\<rparr>"

section \<open>The zone cache\<close>

definition cachetime :: "env \<Rightarrow> int" where
  "cachetime e = (case CF_CACHETIME e of None \<Rightarrow> 30 * 24 * 60 * 60 | Some n \<Rightarrow> n)"

text \<open>
  \<^verbatim>\<open>
  def _zone_id_from_cache(self, domain):
      if domain in self._zone_id_cache:
          if time.time() - self._zone_id_cache[domain]["created"] >= int(os.environ.get("CF_CACHETIME", 30*24*60*60)):
              del self._zone_id_cache[domain]
              return None
          return self._zone_id_cache[domain]["id"]
      return None
  \<close>
\<close>

definition zone_id_from_cache :: "world \<Rightarrow> env \<Rightarrow> string \<Rightarrow> hook \<Rightarrow> string option \<times> hook" where
  "zone_id_from_cache w e domain st =
     (case zone_id_cache st domain of
        None \<Rightarrow> (None, st)
      | Some ent \<Rightarrow>
          (let now = time_time w (trace st);
               s1 = emit (Time now) st
           in if now - created ent \<ge> real_of_int (cachetime e)
              then (None, s1\<lparr>zone_id_cache := (zone_id_cache s1)(domain := None)\<rparr>)
              else (entry_id ent, s1)))"

text \<open>
  \<^verbatim>\<open>
  def _zone_id_to_cache(self, domain, zone_id):
      self._zone_id_cache[domain] = {"id": zone_id, "created": time.time()}
      self._cache_changed = True
      return zone_id
  \<close>
\<close>

definition zone_id_to_cache :: "world \<Rightarrow> string \<Rightarrow> string option \<Rightarrow> hook \<Rightarrow> string option \<times> hook" where
  "zone_id_to_cache w domain zone_id st =
     (let now = time_time w (trace st);
          s1 = emit (Time now) st
      in (zone_id,
          s1\<lparr>zone_id_cache := (zone_id_cache s1)(domain \<mapsto> \<lparr>entry_id = zone_id, created = now\<rparr>),
             cache_changed := True\<rparr>))"

section \<open>The zone resolver\<close>

text \<open>
  \<^verbatim>\<open>
  def _get_zone_id(self, domain):
      for dom in _iter_domain(domain):
          zone_id = self._zone_id_from_cache(dom)
          if zone_id:
              return zone_id
          zones = self._cf.zones.get(params = {"name": dom})
          if len(zones) == 0:
              self._zone_id_to_cache(dom, None)
              continue
          elif len(zones) > 1:
              self._log.warning("Found multiple zones for %s", dom)
          return self._zone_id_to_cache(dom, zones[0]["id"])
      self._log.error("No zone found for domain %s", domain)
  \<close>
  The loop runs over the candidates that are left; \<open>cand\<close> is the loop variable
  \<^verbatim>\<open>dom\<close>. An exception of the provider's client is not caught here. Falling out of
  the loop returns \<^verbatim>\<open>None\<close>. Log lines are not modelled.
\<close>

fun get_zone_id_loop :: "world \<Rightarrow> env \<Rightarrow> string list \<Rightarrow> hook \<Rightarrow> (exn + string option) \<times> hook" where
  "get_zone_id_loop w e [] st = (Inr None, st)"
| "get_zone_id_loop w e (cand # rest) st =
     (case zone_id_from_cache w e cand st of
        (zone_id, s1) \<Rightarrow>
          if truthy zone_id then (Inr zone_id, s1)
          else
            (let zones = zones_get w (trace s1) cand;
                 s2 = emit (ZonesGet cand zones) s1
             in case zones of
                  Inl err \<Rightarrow> (Inl err, s2)
                | Inr [] \<Rightarrow> get_zone_id_loop w e rest (snd (zone_id_to_cache w cand None s2))
                | Inr (z # zs) \<Rightarrow>
                    (case zone_id_to_cache w cand (Some (z_id z)) s2 of
                       (r, s3) \<Rightarrow> (Inr r, s3))))"

definition get_zone_id :: "world \<Rightarrow> env \<Rightarrow> string \<Rightarrow> hook \<Rightarrow> (exn + string option) \<times> hook" where
  "get_zone_id w e domain st = get_zone_id_loop w e (iter_domain domain) st"

section \<open>The record reconciler\<close>

text \<open>
  \<^verbatim>\<open>
  def _get_txt_record_id(self, zone_id, name, token):
      records = self._cf.zones.dns_records.get(zone_id, params = {"type": "TXT", "name": name, "content": token})
      if len(records) == 0:
          return None
      elif len(records) > 1:
          self._log.warning(...)
      return records[0]["id"]
  \<close>
\<close>

definition get_txt_record_id ::
  "world \<Rightarrow> string option \<Rightarrow> string \<Rightarrow> string \<Rightarrow> hook \<Rightarrow> (exn + string option) \<times> hook" where
  "get_txt_record_id w zone_id name token st =
     (let records = dns_records_get w (trace st) zone_id name token;
          s1 = emit (RecordsGet zone_id name token records) st
      in case records of
           Inl err \<Rightarrow> (Inl err, s1)
         | Inr [] \<Rightarrow> (Inr None, s1)
         | Inr (r # rs) \<Rightarrow> (Inr (Some (rec_id r)), s1))"

section \<open>The propagation gate\<close>

text \<open>
  \<^verbatim>\<open>
  def _dns_propagated(self, name, token):
      dns_servers = os.environ.get("CF_DNS_SERVERS")
      if dns_servers:
          resolver = dns.resolver.Resolver()
          resolver.nameservers = dns_servers.split(",")
          resolver_fn = resolver.query
      else:
          resolver_fn = dns.resolver.query
      try:
          response = resolver_fn(name, "TXT")
      except dns.exception.DNSException as err:
          return False
      for rdata in response:
          if token in [s.decode("utf8") for s in rdata.strings]:
              return True
      return False
  \<close>
  An answer is the list of its records, each the list of its strings, already decoded.
\<close>

definition dns_propagated :: "world \<Rightarrow> env \<Rightarrow> string \<Rightarrow> string \<Rightarrow> hook \<Rightarrow> bool \<times> hook" where
  "dns_propagated w e name token st =
     (let dns_servers = CF_DNS_SERVERS e;
          nameservers = (case dns_servers of
                           None \<Rightarrow> None
                         | Some s \<Rightarrow> if truthy dns_servers then Some (py_split CHR '','' s) else None);
          response = resolver_query w (trace st) nameservers name;
          s1 = emit (Query nameservers name response) st
      in case response of
           DNSException \<Rightarrow> (False, s1)
         | Answer rdatas \<Rightarrow> (list_ex (\<lambda>rdata. token \<in> set rdata) rdatas, s1))"

text \<open>
  \<^verbatim>\<open>
  while not self._dns_propagated(record_name, token_value):
      self._log.info("DNS not propagated for %s, waiting 10 seconds...", record_name)
      time.sleep(10)
  \<close>
  The loop has no bound: \<open>None\<close> is the loop that never ends.
\<close>

partial_function (option) wait_propagated :: "world \<Rightarrow> env \<Rightarrow> string \<Rightarrow> string \<Rightarrow> hook \<Rightarrow> hook option" where
  "wait_propagated w e name token st =
     (case dns_propagated w e name token st of
        (propagated, s1) \<Rightarrow>
          if \<not> propagated then wait_propagated w e name token (emit (Sleep 10) s1)
          else Some s1)"

declare wait_propagated.simps [code]

section \<open>The two actions\<close>

text \<open>
  \<^verbatim>\<open>
  def _deploy_challenge(self, domain, token_filename, token_value):
      zone_id = self._get_zone_id(domain)
      record_name = "_acme-challenge.%s" % domain
      record_id = self._get_txt_record_id(zone_id, record_name, token_value)
      if record_id:
          return
      new_record = {"name": record_name, "type": "TXT", "content": token_value, "ttl": 120}
      try:
          result = self._cf.zones.dns_records.post(zone_id, data=new_record)
      except CloudFlare.exceptions.CloudFlareAPIError as err:
          return
      while not self._dns_propagated(record_name, token_value):
          time.sleep(10)
  \<close>
  \<open>acme_name domain\<close> is \<^verbatim>\<open>"_acme-challenge.%s" % domain\<close>.
  The result is \<open>None\<close> when the wait never ends, an exception that nothing catches
  (\<open>Inl\<close>) or a normal return (\<open>Inr\<close>), with the state reached.
\<close>

definition acme_name :: "string \<Rightarrow> string" where
  "acme_name domain = ''_acme-challenge.'' @ domain"

definition deploy_challenge ::
  "world \<Rightarrow> env \<Rightarrow> string \<Rightarrow> string \<Rightarrow> string \<Rightarrow> hook \<Rightarrow> ((exn + unit) \<times> hook) option" where
  "deploy_challenge w e domain token_filename token_value st =
     (case get_zone_id w e domain st of
        (Inl err, s1) \<Rightarrow> Some (Inl err, s1)
      | (Inr zone_id, s1) \<Rightarrow>
          (let record_name = acme_name domain
           in case get_txt_record_id w zone_id record_name token_value s1 of
                (Inl err, s2) \<Rightarrow> Some (Inl err, s2)
              | (Inr record_id, s2) \<Rightarrow>
                  if truthy record_id then Some (Inr (), s2)
                  else
                    (let new_record = \<lparr>nr_name = record_name, nr_type = ''TXT'',
                                        nr_content = token_value, nr_ttl = 120\<rparr>;
                         result = dns_records_post w (trace s2) zone_id new_record;
                         s3 = emit (RecordsPost zone_id new_record result) s2
                     in case result of
                          Inl err \<Rightarrow>
                            if err = CloudFlareAPIError then Some (Inr (), s3)
                            else Some (Inl err, s3)
                        | Inr created_record \<Rightarrow>
                            map_option (Pair (Inr ()))
                              (wait_propagated w e record_name token_value s3))))"

text \<open>
  \<^verbatim>\<open>
  def _clean_challenge(self, domain, token_filename, token_value):
      zone_id = self._get_zone_id(domain)
      record_name = "_acme-challenge.%s" % domain
      record_id = self._get_txt_record_id(zone_id, record_name, token_value)
      if not record_id:
          return
      try:
          self._cf.zones.dns_records.delete(zone_id, record_id)
      except CloudFlare.exceptions.CloudFlareAPIError as err:
          return
  \<close>
\<close>

definition clean_challenge ::
  "world \<Rightarrow> env \<Rightarrow> string \<Rightarrow> string \<Rightarrow> string \<Rightarrow> hook \<Rightarrow> (exn + unit) \<times> hook" where
  "clean_challenge w e domain token_filename token_value st =
     (case get_zone_id w e domain st of
        (Inl err, s1) \<Rightarrow> (Inl err, s1)
      | (Inr zone_id, s1) \<Rightarrow>
          (let record_name = acme_name domain
           in case get_txt_record_id w zone_id record_name token_value s1 of
                (Inl err, s2) \<Rightarrow> (Inl err, s2)
              | (Inr record_id, s2) \<Rightarrow>
                  if \<not> truthy record_id then (Inr (), s2)
                  else
                    (case record_id of
                       None \<Rightarrow> (Inr (), s2)
                     | Some rid \<Rightarrow>
                         (let result = dns_records_delete w (trace s2) zone_id rid;
                              s3 = emit (RecordsDelete zone_id rid result) s2
                          in case result of
                               Inl err \<Rightarrow>
                                 if err = CloudFlareAPIError then (Inr (), s3)
                                 else (Inl err, s3)
                             | Inr done \<Rightarrow> (Inr (), s3)))))"

section \<open>Loading and saving the cache\<close>

text \<open>
  \<^verbatim>\<open>
  def _load_cache(self, fname):
      if not os.path.isfile(fname):
          return
      with open(fname) as file:
          cache_file = json.load(file)
          if cache_file["account"] != os.environ.get("CF_API_EMAIL"):
              return
          self._zone_id_cache = cache_file["zone"]
          self._cache_changed = False
  \<close>
  A file that is not JSON of the expected shape raises.
\<close>

definition load_cache :: "env \<Rightarrow> string \<Rightarrow> hook \<Rightarrow> (exn + unit) \<times> hook" where
  "load_cache e fname st =
     (case files st fname of
        None \<Rightarrow> (Inr (), st)
      | Some file \<Rightarrow>
          (case content file of
             Unparsable \<Rightarrow> (Inl JSONDecodeError, st)
           | Json cache_file \<Rightarrow>
               if account cache_file \<noteq> CF_API_EMAIL e then (Inr (), st)
               else (Inr (), st\<lparr>zone_id_cache := zone cache_file, cache_changed := False\<rparr>)))"

text \<open>
  \<^verbatim>\<open>
  def _save_cache(self, fname):
      if not self._cache_changed:
          return
      with open(fname, "w") as file:
          json.dump({"account": os.environ.get("CF_API_EMAIL"), "zone": self._zone_id_cache}, file)
      os.chmod(fname, int(os.environ.get("CF_CACHEFMODE", "600"), base=8))
  \<close>
\<close>

definition cachefmode :: "env \<Rightarrow> nat" where
  "cachefmode e = (case CF_CACHEFMODE e of None \<Rightarrow> 6 * 8 * 8 | Some m \<Rightarrow> m)"

definition save_cache :: "env \<Rightarrow> string \<Rightarrow> hook \<Rightarrow> hook" where
  "save_cache e fname st =
     (if \<not> cache_changed st then st
      else st\<lparr>files := (files st)(fname \<mapsto>
             \<lparr>content = Json \<lparr>account = CF_API_EMAIL e, zone = zone_id_cache st\<rparr>,
              fmode = cachefmode e\<rparr>)\<rparr>)"

section \<open>The dispatcher\<close>

text \<open>
  \<^verbatim>\<open>
  def main(self, argv):
      actions = {"deploy_challenge": self._deploy_challenge, "clean_challenge": self._clean_challenge}
      cache_fname = os.environ.get("CF_CACHEFILE", "/etc/dehydrated/cloudflare.json")
      op = argv[0]
      if op in actions:
          self._load_cache(cache_fname)
          actions[op](*argv[1:])
          self._save_cache(cache_fname)
  \<close>
  An exception leaves \<^verbatim>\<open>main\<close> before the cache is saved.
\<close>

definition cache_fname :: "env \<Rightarrow> string" where
  "cache_fname e = (case CF_CACHEFILE e of None \<Rightarrow> ''/etc/dehydrated/cloudflare.json'' | Some f \<Rightarrow> f)"

definition main :: "world \<Rightarrow> env \<Rightarrow> string list \<Rightarrow> hook \<Rightarrow> ((exn + unit) \<times> hook) option" where
  "main w e argv st =
     (case argv of
        [] \<Rightarrow> Some (Inl IndexError, st)
      | action # args \<Rightarrow>
          if action = ''deploy_challenge'' \<or> action = ''clean_challenge'' then
            (case load_cache e (cache_fname e) st of
               (Inl err, s1) \<Rightarrow> Some (Inl err, s1)
             | (Inr loaded, s1) \<Rightarrow>
                 (case args of
                    [domain, token_filename, token_value] \<Rightarrow>
                      (case (if action = ''deploy_challenge''
                             then deploy_challenge w e domain token_filename token_value s1
                             else Some (clean_challenge w e domain token_filename token_value s1)) of
                         None \<Rightarrow> None
                       | Some (Inl err, s2) \<Rightarrow> Some (Inl err, s2)
                       | Some (Inr returned, s2) \<Rightarrow> Some (Inr (), save_cache e (cache_fname e) s2))
                  | _ \<Rightarrow> Some (Inl TypeError, s1)))
          else Some (Inr (), st))"

section \<open>Properties of the domain walker\<close>

lemma iter_domain_loop_0: "iter_domain_loop dom_labels 0 = []"
  by (simp add: iter_domain_loop.simps)

lemma iter_domain_loop_Suc:
  "iter_domain_loop dom_labels (Suc k) = py_join ''.'' (drop k dom_labels) # iter_domain_loop dom_labels k"
  by (subst iter_domain_loop.simps) simp

lemma py_split_not_Nil: "py_split sep s \<noteq> []"
  by (induction s) (auto split: list.splits)

lemma py_split_sep_free: "w \<in> set (py_split sep s) \<Longrightarrow> sep \<notin> set w"
  by (induction s arbitrary: w) (auto split: list.splits if_splits)

lemma py_split_Cons_other:
  "c \<noteq> sep \<Longrightarrow> py_split sep (c # cs) = (c # hd (py_split sep cs)) # tl (py_split sep cs)"
  using py_split_not_Nil [of sep cs] by (cases "py_split sep cs") auto

lemma py_split_append_free:
  "sep \<notin> set w \<Longrightarrow> py_split sep (w @ s) = (w @ hd (py_split sep s)) # tl (py_split sep s)"
proof (induction w)
  case Nil
  then show ?case using py_split_not_Nil [of sep s] by (cases "py_split sep s") auto
next
  case (Cons c w)
  then have "c \<noteq> sep" by auto
  with Cons show ?case by (simp add: py_split_Cons_other)
qed

lemma py_split_free: "sep \<notin> set w \<Longrightarrow> py_split sep w = [w]"
  using py_split_append_free [of sep w "[]"] by simp

lemma py_split_join:
  "xs \<noteq> [] \<Longrightarrow> \<forall>w \<in> set xs. sep \<notin> set w \<Longrightarrow> py_split sep (py_join [sep] xs) = xs"
proof (induction "[sep]" xs rule: py_join.induct)
  case 1
  then show ?case by simp
next
  case (2 x)
  then show ?case by (simp add: py_split_free)
next
  case (3 x y ys)
  then show ?case by (simp add: py_split_append_free)
qed

lemma py_join_split: "py_join [sep] (py_split sep s) = s"
proof (induction s)
  case Nil
  then show ?case by simp
next
  case (Cons c s)
  show ?case
  proof (cases "c = sep")
    case True
    then show ?thesis using Cons py_split_not_Nil [of sep s]
      by (cases "py_split sep s") auto
  next
    case False
    then show ?thesis using Cons py_split_not_Nil [of sep s]
      by (cases "py_split sep s"; cases "tl (py_split sep s)") auto
  qed
qed

lemma iter_domain_loop_eq:
  "iter_domain_loop ls k = rev (map (\<lambda>i. py_join ''.'' (drop i ls)) [0..<k])"
  by (induction k) (simp_all add: iter_domain_loop_0 iter_domain_loop_Suc)

lemma label_count:
  assumes "i < length (py_split sep s)"
  shows "length (py_split sep (py_join [sep] (drop i (py_split sep s)))) = length (py_split sep s) - i"
proof -
  have "drop i (py_split sep s) \<noteq> []" using assms by simp
  moreover have "\<forall>w \<in> set (drop i (py_split sep s)). sep \<notin> set w"
    using py_split_sep_free in_set_dropD by fast
  ultimately show ?thesis by (simp add: py_split_join)
qed

text \<open>
  Claim C1, as amended. For a domain with the labels \<open>l0, ..., ln\<close> the walker
  yields \<open>n + 1\<close> candidates, one for each suffix of the label list, least specific
  first: \<open>ln\<close>, then \<open>l(n-1).ln\<close>, and so on, the label count growing by one from 1
  at each step, the last candidate being the whole domain.
\<close>

theorem iter_domain_least_specific_first:
  "iter_domain d =
     rev (map (\<lambda>i. py_join ''.'' (drop i (py_split CHR ''.'' d))) [0..<length (py_split CHR ''.'' d)])
   \<and> length (iter_domain d) = length (py_split CHR ''.'' d)
   \<and> map (\<lambda>c. length (py_split CHR ''.'' c)) (iter_domain d) = [1..<Suc (length (py_split CHR ''.'' d))]
   \<and> last (iter_domain d) = d"
proof -
  let ?ls = "py_split CHR ''.'' d"
  let ?n = "length ?ls"
  have eq: "iter_domain d = rev (map (\<lambda>i. py_join ''.'' (drop i ?ls)) [0..<?n])"
    by (simp add: iter_domain_def iter_domain_loop_eq Let_def)
  have len: "length (iter_domain d) = ?n"
    by (simp add: eq)
  have cnt: "map (\<lambda>c. length (py_split CHR ''.'' c)) (iter_domain d) = [1..<Suc ?n]"
  proof (rule nth_equalityI)
    show "length (map (\<lambda>c. length (py_split CHR ''.'' c)) (iter_domain d)) = length [1..<Suc ?n]"
      by (simp add: len del: upt_Suc)
  next
    fix k
    assume "k < length (map (\<lambda>c. length (py_split CHR ''.'' c)) (iter_domain d))"
    then have k: "k < ?n" by (simp add: len)
    then have "?n - Suc k < ?n" by arith
    with k have "iter_domain d ! k = py_join ''.'' (drop (?n - Suc k) ?ls)"
      by (simp add: eq rev_nth)
    moreover have "length (py_split CHR ''.'' (py_join ''.'' (drop (?n - Suc k) ?ls))) = ?n - (?n - Suc k)"
      using k by (intro label_count) simp
    ultimately show "map (\<lambda>c. length (py_split CHR ''.'' c)) (iter_domain d) ! k = [1..<Suc ?n] ! k"
      using k len by (simp del: upt_Suc)
  qed
  have "?n \<noteq> 0" using py_split_not_Nil [of "CHR ''.''" d] by simp
  then have "[0..<?n] = 0 # [Suc 0..<?n]"
    by (simp add: upt_conv_Cons)
  then have "iter_domain d = rev (map (\<lambda>i. py_join ''.'' (drop i ?ls)) (0 # [Suc 0..<?n]))"
    using eq by simp
  then have "last (iter_domain d) = py_join ''.'' ?ls"
    by simp
  then have lst: "last (iter_domain d) = d"
    by (simp add: py_join_split)
  from eq len cnt lst show ?thesis by blast
qed

theorem iter_domain_least_specific_first_witness:
  "iter_domain ''www.example.com'' = [''com'', ''example.com'', ''www.example.com'']
   \<and> map (\<lambda>c. length (py_split CHR ''.'' c)) (iter_domain ''www.example.com'') = [1, 2, 3]"
  using iter_domain_least_specific_first [of "''www.example.com''"]
  by (simp add: upt_rec numeral_eq_Suc)

text \<open>
  The order the claim states, most specific first, is not the order of the walker.
\<close>

theorem iter_domain_most_specific_first_counterexample:
  "iter_domain ''www.example.com'' \<noteq> [''www.example.com'', ''example.com'', ''com'']"
  by (simp add: iter_domain_def iter_domain_loop.simps)

end
